theory Spec2Isabelle
  imports Complex_Main
begin

section \<open>The signal polling service (services/database-signals-polling.ts)\<close>

text \<open>
  The class \<open>DatabaseSignalsPollingService\<close> is embedded as a record of its private
  fields together with the part of the JavaScript runtime it talks to: the table of
  active interval timers, the pending one-shot timeouts, the HTTP requests it has issued
  and the callback invocations it has made. Every method is a function from state to
  state. Exceptions are values of type \<open>error\<close>, returned on the left of a sum.

  Conventions of the embedding:
  \<^item> an instant is an \<open>int\<close> (milliseconds since the epoch, the value of \<open>Date.now()\<close>);
    the ISO-8601 string that \<open>toISOString()\<close> makes of an instant is identified with
    the instant, so \<open>lastPollTime\<close> is an \<open>int option\<close> (\<open>None\<close> is \<open>null\<close>);
  \<^item> a callback is known by an identifier; \<open>None\<close> is \<open>undefined\<close>. Callbacks are
    taken to return normally and not to call back into the service;
  \<^item> what the outside world answers (clock readings, HTTP responses, random draws) is an
    argument of the function that consumes it;
  \<^item> an asynchronous cycle is one step, taken when its promise settles.
\<close>

subsection \<open>Data\<close>

text \<open>\<open>interface DatabaseSignal\<close>: eleven string fields.\<close>

record DatabaseSignal =
  sig_id :: string
  sig_ea :: string
  sig_asset :: string
  sig_latestupdate :: string
  sig_type :: string
  sig_action :: string
  sig_price :: string
  sig_tp :: string
  sig_sl :: string
  sig_time :: string
  sig_results :: string

type_synonym callback = nat

text \<open>A thrown \<open>Error\<close> object and its rendering inside a template string.\<close>

datatype error = Error string

fun errorToString :: "error \<Rightarrow> string" where
  "errorToString (Error m) = ''Error: '' @ m"

text \<open>
  What \<open>fetch\<close> followed by \<open>response.json()\<close> can give: the promise rejects (network
  failure), the request is aborted by its \<open>AbortSignal.timeout\<close>, or a response arrives
  with a status and a body. The body is \<open>None\<close> when \<open>response.json()\<close> rejects; a body
  that parses has the shape the code's types declare, and is represented by the field
  the code reads from it (\<open>data.eaId\<close>, \<open>data.signals\<close>).
\<close>

datatype 'a response = Rejected | Aborted | Responded nat "'a option"

text \<open>\<open>response.ok\<close> is true for the statuses 200 to 299.\<close>

definition ok :: "nat \<Rightarrow> bool" where
  "ok status \<longleftrightarrow> 200 \<le> status \<and> status \<le> 299"

text \<open>
  The data a \<open>try\<close> block obtains from a response: \<open>None\<close> when any statement of
  \<open>fetch\<close>, the \<open>response.ok\<close> test or \<open>response.json()\<close> throws.
\<close>

fun received :: "'a response \<Rightarrow> 'a option" where
  "received Rejected = None"
| "received Aborted = None"
| "received (Responded status body) = (if ok status then body else None)"

text \<open>The requests issued and the callback invocations made, in order.\<close>

datatype request =
  GetEAFromLicense string
| GetNewSignals string int nat

datatype invocation =
  SignalFound callback DatabaseSignal
| ErrorReported callback string

text \<open>The closure an interval timer runs: the mock generator, or a real cycle for the
  license key captured by \<open>startRealPolling\<close>.\<close>

datatype tick = MockTick | RealTick string

record cacheEntry =
  ea :: "string option"
  timestamp :: int

record DatabaseSignalsPollingService =
  isEnabled :: bool
  intervalId :: "nat option"
  onSignalFound :: "callback option"
  onError :: "callback option"
  currentLicenseKey :: "string option"
  currentEA :: "string option"
  lastPollTime :: "int option"
  eaCache :: "string \<rightharpoonup> cacheEntry"
  consecutiveErrors :: nat
  intervals :: "(nat \<times> nat \<times> tick) list"
  nextHandle :: nat
  timeouts :: "nat list"
  requests :: "request list"
  invocations :: "invocation list"

definition EA_CACHE_TTL :: int where
  "EA_CACHE_TTL = 300000"

definition maxConsecutiveErrors :: nat where
  "maxConsecutiveErrors = 3"

text \<open>The service as constructed: the field initialisers of the class, no timer, and
  timer handles counted from 1 (a handle is a positive number).\<close>

definition initial :: DatabaseSignalsPollingService where
  "initial = \<lparr> isEnabled = True, intervalId = None, onSignalFound = None, onError = None,
     currentLicenseKey = None, currentEA = None, lastPollTime = None, eaCache = Map.empty,
     consecutiveErrors = 0, intervals = [], nextHandle = 1, timeouts = [],
     requests = [], invocations = [] \<rparr>"

subsection \<open>Truthiness\<close>

text \<open>\<open>if (this.intervalId)\<close>: \<open>null\<close> and the number 0 are falsy.\<close>

fun truthyHandle :: "nat option \<Rightarrow> bool" where
  "truthyHandle None = False"
| "truthyHandle (Some h) = (h \<noteq> 0)"

text \<open>\<open>if (!ea)\<close>, \<open>if (this.currentLicenseKey)\<close>: \<open>null\<close>, \<open>undefined\<close> and the empty
  string are falsy.\<close>

fun truthyString :: "string option \<Rightarrow> bool" where
  "truthyString None = False"
| "truthyString (Some str) = (str \<noteq> [])"

subsection \<open>The runtime's timers\<close>

definition setInterval :: "DatabaseSignalsPollingService \<Rightarrow> tick \<Rightarrow> nat \<Rightarrow> nat \<times> DatabaseSignalsPollingService" where
  "setInterval s body period =
     (nextHandle s,
      s\<lparr>intervals := intervals s @ [(nextHandle s, period, body)], nextHandle := Suc (nextHandle s)\<rparr>)"

definition clearInterval :: "DatabaseSignalsPollingService \<Rightarrow> nat \<Rightarrow> DatabaseSignalsPollingService" where
  "clearInterval s h = s\<lparr>intervals := filter (\<lambda>t. fst t \<noteq> h) (intervals s)\<rparr>"

definition setTimeout :: "DatabaseSignalsPollingService \<Rightarrow> nat \<Rightarrow> DatabaseSignalsPollingService" where
  "setTimeout s delay = s\<lparr>timeouts := timeouts s @ [delay]\<rparr>"

subsection \<open>Methods\<close>

definition enableDatabaseConnections :: "DatabaseSignalsPollingService \<Rightarrow> DatabaseSignalsPollingService" where
  "enableDatabaseConnections s = s\<lparr>isEnabled := True\<rparr>"

definition stopPolling :: "DatabaseSignalsPollingService \<Rightarrow> DatabaseSignalsPollingService" where
  "stopPolling s =
     (let s1 = (case intervalId s of
                  None \<Rightarrow> s
                | Some h \<Rightarrow> if truthyHandle (Some h)
                           then (clearInterval s h)\<lparr>intervalId := None\<rparr>
                           else s)
      in s1\<lparr>currentLicenseKey := None, currentEA := None, lastPollTime := None\<rparr>)"

definition disableDatabaseConnections :: "DatabaseSignalsPollingService \<Rightarrow> DatabaseSignalsPollingService" where
  "disableDatabaseConnections s = stopPolling (s\<lparr>isEnabled := False\<rparr>)"

definition startMockPolling :: "DatabaseSignalsPollingService \<Rightarrow> string \<Rightarrow> DatabaseSignalsPollingService" where
  "startMockPolling s licenseKey =
     (case setInterval s MockTick 30000 of (h, s1) \<Rightarrow> s1\<lparr>intervalId := Some h\<rparr>)"

text \<open>
  \<open>startRealPolling\<close> starts the initial check and sets the timer. The initial check
  suspends at its first \<open>await\<close>, before it changes any field, so all it does happens
  after the timer is set: it is the separate step \<open>initialCheck\<close> below.
\<close>

definition startRealPolling :: "DatabaseSignalsPollingService \<Rightarrow> string \<Rightarrow> DatabaseSignalsPollingService" where
  "startRealPolling s licenseKey =
     (case setInterval s (RealTick licenseKey) 30000 of (h, s1) \<Rightarrow> s1\<lparr>intervalId := Some h\<rparr>)"

definition startPolling ::
  "DatabaseSignalsPollingService \<Rightarrow> string \<Rightarrow> callback option \<Rightarrow> callback option \<Rightarrow> int \<Rightarrow> DatabaseSignalsPollingService" where
  "startPolling s licenseKey onSignalFound' onError' now =
     (if truthyHandle (intervalId s) then s
      else
        let s1 = s\<lparr>onSignalFound := onSignalFound', onError := onError',
                   currentLicenseKey := Some licenseKey, lastPollTime := Some now\<rparr>
        in if \<not> isEnabled s1 then startMockPolling s1 licenseKey
           else startRealPolling s1 licenseKey)"

definition isRunning :: "DatabaseSignalsPollingService \<Rightarrow> bool" where
  "isRunning s \<longleftrightarrow> intervalId s \<noteq> None"

text \<open>\<open>getStatus()\<close> returns the five values it reads.\<close>

record status =
  st_isRunning :: bool
  st_licenseKey :: "string option"
  st_ea :: "string option"
  st_lastPollTime :: "int option"
  st_isEnabled :: bool

definition getStatus :: "DatabaseSignalsPollingService \<Rightarrow> status" where
  "getStatus s = \<lparr> st_isRunning = isRunning s, st_licenseKey = currentLicenseKey s,
     st_ea = currentEA s, st_lastPollTime = lastPollTime s, st_isEnabled = isEnabled s \<rparr>"

subsection \<open>The mock generator\<close>

text \<open>
  What one run of the mock timer's body draws from the runtime: \<open>Date.now()\<close> for the
  identifier, the two \<open>new Date().toISOString()\<close> strings, the draw of
  \<open>Math.random()\<close> that picks the action, and the three \<open>toFixed(2)\<close> strings (the
  floating-point formatting is not modelled). The clock of the identifier is read after
  the epoch, so it is a \<open>nat\<close>, printed in decimal.
\<close>

record mockDraws =
  idNow :: nat
  latestupdateNow :: string
  actionRandom :: real
  priceFixed :: string
  tpFixed :: string
  slFixed :: string
  timeNow :: string

fun decimal :: "nat \<Rightarrow> string" where
  "decimal n =
     (if n < 10 then [char_of (48 + n)]
      else decimal (n div 10) @ [char_of (48 + n mod 10)])"

declare decimal.simps [simp del]

definition mockSignal :: "mockDraws \<Rightarrow> DatabaseSignal" where
  "mockSignal d = \<lparr> sig_id = ''mock-'' @ decimal (idNow d), sig_ea = ''MockEA'',
     sig_asset = ''XAUUSD'', sig_latestupdate = latestupdateNow d, sig_type = ''TRADE'',
     sig_action = (if actionRandom d > 0.5 then ''BUY'' else ''SELL''),
     sig_price = priceFixed d, sig_tp = tpFixed d, sig_sl = slFixed d,
     sig_time = timeNow d, sig_results = ''PENDING'' \<rparr>"

definition mockTick :: "DatabaseSignalsPollingService \<Rightarrow> mockDraws \<Rightarrow> DatabaseSignalsPollingService" where
  "mockTick s d =
     (case onSignalFound s of
        None \<Rightarrow> s
      | Some cb \<Rightarrow> s\<lparr>invocations := invocations s @ [SignalFound cb (mockSignal d)]\<rparr>)"

subsection \<open>The real cycle\<close>

text \<open>
  \<open>getEAFromLicense\<close>. \<open>cacheHit\<close> is the test
  \<open>cached && (Date.now() - cached.timestamp) < this.EA_CACHE_TTL\<close>; \<open>nowCheck\<close> is the
  clock it reads, \<open>nowStore\<close> the clock read when the answer is cached. Whatever is
  thrown inside the \<open>try\<close> is replaced by one error.
\<close>

definition cacheHit :: "cacheEntry option \<Rightarrow> int \<Rightarrow> cacheEntry option" where
  "cacheHit cached now =
     (case cached of
        None \<Rightarrow> None
      | Some c \<Rightarrow> if now - timestamp c < EA_CACHE_TTL then Some c else None)"

definition getEAFromLicense ::
  "DatabaseSignalsPollingService \<Rightarrow> string \<Rightarrow> int \<Rightarrow> string option response \<Rightarrow> int
     \<Rightarrow> (error + string option) \<times> DatabaseSignalsPollingService" where
  "getEAFromLicense s licenseKey nowCheck resp nowStore =
     (case cacheHit (eaCache s licenseKey) nowCheck of
        Some cached \<Rightarrow> (Inr (ea cached), s)
      | None \<Rightarrow>
          (let s1 = s\<lparr>requests := requests s @ [GetEAFromLicense licenseKey]\<rparr>
           in case received resp of
                None \<Rightarrow> (Inl (Error ''Failed to fetch EA from license''), s1)
              | Some eaId \<Rightarrow>
                  (Inr eaId,
                   s1\<lparr>eaCache := (eaCache s1)(licenseKey \<mapsto> \<lparr>ea = eaId, timestamp = nowStore\<rparr>)\<rparr>)))"

text \<open>
  \<open>getNewSignalsForEA\<close>. \<open>sinceParam\<close> is the expression
  \<open>this.lastPollTime || new Date(Date.now() - 60 * 60 * 1000).toISOString()\<close>, with
  \<open>now\<close> the clock it reads. The request carries the EA, \<open>since\<close> and the timeout of
  its abort signal. The \<open>catch\<close> counts the failure and, at the threshold, calls
  \<open>stopPolling\<close> and sets the five-minute timeout whose body is \<open>resume\<close>.
\<close>

definition sinceParam :: "DatabaseSignalsPollingService \<Rightarrow> int \<Rightarrow> int" where
  "sinceParam s now = (case lastPollTime s of Some t \<Rightarrow> t | None \<Rightarrow> now - 60 * 60 * 1000)"

definition getNewSignalsForEA ::
  "DatabaseSignalsPollingService \<Rightarrow> string \<Rightarrow> int \<Rightarrow> DatabaseSignal list response
     \<Rightarrow> (error + DatabaseSignal list) \<times> DatabaseSignalsPollingService" where
  "getNewSignalsForEA s eaName now resp =
     (let since = sinceParam s now;
          s1 = s\<lparr>requests := requests s @ [GetNewSignals eaName since 10000]\<rparr>
      in case received resp of
           Some signals \<Rightarrow> (Inr signals, s1\<lparr>consecutiveErrors := 0\<rparr>)
         | None \<Rightarrow>
             (let s2 = s1\<lparr>consecutiveErrors := consecutiveErrors s1 + 1\<rparr>;
                  s3 = (if consecutiveErrors s2 \<ge> maxConsecutiveErrors
                        then setTimeout (stopPolling s2) 300000
                        else s2)
              in (Inl (Error ''Failed to fetch new signals''), s3)))"

text \<open>The body of that timeout.\<close>

definition resume :: "DatabaseSignalsPollingService \<Rightarrow> int \<Rightarrow> DatabaseSignalsPollingService" where
  "resume s now =
     (case currentLicenseKey s of
        None \<Rightarrow> s
      | Some licenseKey \<Rightarrow>
          if truthyString (Some licenseKey)
          then startPolling (s\<lparr>consecutiveErrors := 0\<rparr>) licenseKey (onSignalFound s) (onError s) now
          else s)"

text \<open>The \<open>for\<close> loop of \<open>checkForNewSignals\<close>, as recursion over the list.\<close>

fun processSignals :: "DatabaseSignalsPollingService \<Rightarrow> DatabaseSignal list \<Rightarrow> DatabaseSignalsPollingService" where
  "processSignals s [] = s"
| "processSignals s (signal # rest) =
     processSignals
       (case onSignalFound s of
          None \<Rightarrow> s
        | Some cb \<Rightarrow> s\<lparr>invocations := invocations s @ [SignalFound cb signal]\<rparr>)
       rest"

text \<open>What the world answers during one cycle, in the order the cycle asks.\<close>

record cycleEnv =
  nowCheck :: int
  eaResponse :: "string option response"
  nowStore :: int
  nowSince :: int
  signalsResponse :: "DatabaseSignal list response"
  nowEnd :: int

text \<open>\<open>checkForNewSignals\<close>: its \<open>catch\<close> rethrows, so an error of either lookup is
  the error of the cycle.\<close>

definition checkForNewSignals ::
  "DatabaseSignalsPollingService \<Rightarrow> string \<Rightarrow> cycleEnv \<Rightarrow> (error + unit) \<times> DatabaseSignalsPollingService" where
  "checkForNewSignals s licenseKey env =
     (case getEAFromLicense s licenseKey (nowCheck env) (eaResponse env) (nowStore env) of
        (Inl e, s1) \<Rightarrow> (Inl e, s1)
      | (Inr None, s1) \<Rightarrow> (Inr (), s1)
      | (Inr (Some eaName), s1) \<Rightarrow>
          if \<not> truthyString (Some eaName) then (Inr (), s1)
          else
            (let s2 = s1\<lparr>currentEA := Some eaName\<rparr>
             in case getNewSignalsForEA s2 eaName (nowSince env) (signalsResponse env) of
                  (Inl e, s3) \<Rightarrow> (Inl e, s3)
                | (Inr signals, s3) \<Rightarrow>
                    (Inr (), (processSignals s3 signals)\<lparr>lastPollTime := Some (nowEnd env)\<rparr>)))"

text \<open>The initial check of \<open>startRealPolling\<close>: its \<open>.catch\<close> only logs.\<close>

definition initialCheck :: "DatabaseSignalsPollingService \<Rightarrow> string \<Rightarrow> cycleEnv \<Rightarrow> DatabaseSignalsPollingService" where
  "initialCheck s licenseKey env =
     (case checkForNewSignals s licenseKey env of
        (Inl e, s1) \<Rightarrow> s1
      | (Inr u, s1) \<Rightarrow> s1)"

text \<open>The body of the real timer: its \<open>catch\<close> logs and calls \<open>onError\<close>.\<close>

definition intervalTick :: "DatabaseSignalsPollingService \<Rightarrow> string \<Rightarrow> cycleEnv \<Rightarrow> DatabaseSignalsPollingService" where
  "intervalTick s licenseKey env =
     (case checkForNewSignals s licenseKey env of
        (Inl e, s1) \<Rightarrow>
          (case onError s1 of
             None \<Rightarrow> s1
           | Some cb \<Rightarrow>
               s1\<lparr>invocations := invocations s1 @ [ErrorReported cb (''Database error: '' @ errorToString e)]\<rparr>)
      | (Inr u, s1) \<Rightarrow> s1)"

subsection \<open>The event loop\<close>

text \<open>
  Everything that can happen to the service: a call of a public method, a timer firing,
  the initial check settling, the cooldown timeout firing. A timer that has been cleared
  does not fire.
\<close>

datatype event =
  EnableDatabaseConnections
| DisableDatabaseConnections
| StartPolling string "callback option" "callback option" int
| StopPolling
| IntervalFires nat cycleEnv mockDraws
| InitialCheckSettles string cycleEnv
| TimeoutFires int

fun step :: "DatabaseSignalsPollingService \<Rightarrow> event \<Rightarrow> DatabaseSignalsPollingService" where
  "step s EnableDatabaseConnections = enableDatabaseConnections s"
| "step s DisableDatabaseConnections = disableDatabaseConnections s"
| "step s (StartPolling licenseKey f g now) = startPolling s licenseKey f g now"
| "step s StopPolling = stopPolling s"
| "step s (IntervalFires h env d) =
     (case map_of (intervals s) h of
        None \<Rightarrow> s
      | Some (period, MockTick) \<Rightarrow> mockTick s d
      | Some (period, RealTick licenseKey) \<Rightarrow> intervalTick s licenseKey env)"
| "step s (InitialCheckSettles licenseKey env) = initialCheck s licenseKey env"
| "step s (TimeoutFires now) =
     (case timeouts s of
        [] \<Rightarrow> s
      | delay # rest \<Rightarrow> resume (s\<lparr>timeouts := rest\<rparr>) now)"

definition run :: "DatabaseSignalsPollingService \<Rightarrow> event list \<Rightarrow> DatabaseSignalsPollingService" where
  "run s evs = foldl step s evs"

subsection \<open>Invariant of the timer table\<close>

text \<open>
  The runtime holds exactly the timer named by \<open>intervalId\<close>, and handles are positive.
\<close>

definition timerInv :: "DatabaseSignalsPollingService \<Rightarrow> bool" where
  "timerInv s \<longleftrightarrow>
     map fst (intervals s) = (case intervalId s of None \<Rightarrow> [] | Some h \<Rightarrow> [h])
     \<and> (case intervalId s of None \<Rightarrow> True | Some h \<Rightarrow> 0 < h)
     \<and> 0 < nextHandle s"

subsection \<open>Concrete sessions and answers\<close>

definition signalBuy :: DatabaseSignal where
  "signalBuy = \<lparr> sig_id = ''41'', sig_ea = ''MockEA'', sig_asset = ''XAUUSD'',
     sig_latestupdate = ''2024-01-01T00:00:10.000Z'', sig_type = ''TRADE'', sig_action = ''BUY'',
     sig_price = ''2050.10'', sig_tp = ''2060.00'', sig_sl = ''2040.00'',
     sig_time = ''2024-01-01T00:00:10.000Z'', sig_results = ''PENDING'' \<rparr>"

definition signalSell :: DatabaseSignal where
  "signalSell = \<lparr> sig_id = ''42'', sig_ea = ''MockEA'', sig_asset = ''XAUUSD'',
     sig_latestupdate = ''2024-01-01T00:00:20.000Z'', sig_type = ''TRADE'', sig_action = ''SELL'',
     sig_price = ''2051.30'', sig_tp = ''2041.00'', sig_sl = ''2061.00'',
     sig_time = ''2024-01-01T00:00:20.000Z'', sig_results = ''PENDING'' \<rparr>"

text \<open>A cycle in which the license lookup answers 500.\<close>

definition envResolutionFails :: cycleEnv where
  "envResolutionFails = \<lparr> nowCheck = 1030000, eaResponse = Responded 500 None, nowStore = 1030100,
     nowSince = 1030100, signalsResponse = Responded 200 (Some []), nowEnd = 1030200 \<rparr>"

text \<open>A cycle in which the license lookup answers that there is no EA.\<close>

definition envNoEA :: cycleEnv where
  "envNoEA = \<lparr> nowCheck = 1030000, eaResponse = Responded 200 (Some None), nowStore = 1030100,
     nowSince = 1030100, signalsResponse = Responded 200 (Some []), nowEnd = 1030200 \<rparr>"

text \<open>A cycle in which the EA resolves and the signals request times out.\<close>

definition envFetchFails :: cycleEnv where
  "envFetchFails = \<lparr> nowCheck = 1030000, eaResponse = Responded 200 (Some (Some ''MockEA'')),
     nowStore = 1030100, nowSince = 1030100, signalsResponse = Aborted, nowEnd = 1040100 \<rparr>"

text \<open>A cycle in which the EA resolves and two signals come back.\<close>

definition envSuccess :: cycleEnv where
  "envSuccess = \<lparr> nowCheck = 1030000, eaResponse = Responded 200 (Some (Some ''MockEA'')),
     nowStore = 1030100, nowSince = 1030100,
     signalsResponse = Responded 200 (Some [signalBuy, signalSell]), nowEnd = 1030200 \<rparr>"

text \<open>The same, with a clock that has been set back before the cycle ends.\<close>

definition envClockSetBack :: cycleEnv where
  "envClockSetBack = envSuccess\<lparr>nowEnd := 999000\<rparr>"

text \<open>A session started on the fresh service at instant 1000000, and the same session
  after two timer cycles whose signals request failed.\<close>

definition running :: DatabaseSignalsPollingService where
  "running = startPolling initial ''ABC123'' (Some 1) (Some 2) 1000000"

definition twoFailures :: DatabaseSignalsPollingService where
  "twoFailures = intervalTick (intervalTick running ''ABC123'' envFetchFails) ''ABC123'' envFetchFails"

text \<open>The session \<open>running\<close> after an initial check that found no EA for the license.\<close>

definition noEACached :: DatabaseSignalsPollingService where
  "noEACached = initialCheck running ''ABC123'' envNoEA"

text \<open>The fresh service after \<open>disableDatabaseConnections\<close>.\<close>

definition disabled :: DatabaseSignalsPollingService where
  "disabled = disableDatabaseConnections initial"

definition mockDrawsExample :: mockDraws where
  "mockDrawsExample = \<lparr> idNow = 1030000, latestupdateNow = ''1970-01-01T00:17:10.000Z'',
     actionRandom = 0.7, priceFixed = ''2431.07'', tpFixed = ''35.50'', slFixed = ''12.25'',
     timeNow = ''1970-01-01T00:17:10.000Z'' \<rparr>"

section \<open>Properties\<close>

subsection \<open>What each function does, case by case\<close>

lemma processSignals_eq:
  "processSignals s signals =
     s\<lparr>invocations := invocations s @
        (case onSignalFound s of None \<Rightarrow> [] | Some cb \<Rightarrow> map (SignalFound cb) signals)\<rparr>"
proof (induction signals arbitrary: s)
  case Nil
  show ?case by (simp split: option.split)
next
  case (Cons signal rest)
  show ?case by (simp add: Cons.IH split: option.split)
qed

lemma getEAFromLicense_hit:
  assumes "eaCache s k = Some c" and "now - timestamp c < EA_CACHE_TTL"
  shows "getEAFromLicense s k now resp t = (Inr (ea c), s)"
  using assms by (simp add: getEAFromLicense_def cacheHit_def)

lemma getEAFromLicense_miss:
  assumes "cacheHit (eaCache s k) now = None"
  shows "getEAFromLicense s k now resp t =
     (case received resp of
        None \<Rightarrow> (Inl (Error ''Failed to fetch EA from license''),
                 s\<lparr>requests := requests s @ [GetEAFromLicense k]\<rparr>)
      | Some eaId \<Rightarrow> (Inr eaId,
                 s\<lparr>requests := requests s @ [GetEAFromLicense k],
                   eaCache := (eaCache s)(k \<mapsto> \<lparr>ea = eaId, timestamp = t\<rparr>)\<rparr>))"
  using assms by (simp add: getEAFromLicense_def Let_def split: option.split)

lemma getEAFromLicense_shape:
  "\<exists>rq c. snd (getEAFromLicense s k now resp t) = s\<lparr>requests := rq, eaCache := c\<rparr>"
proof (cases "cacheHit (eaCache s k) now")
  case None
  show ?thesis
  proof (cases "received resp")
    case None
    with \<open>cacheHit (eaCache s k) now = None\<close> have
      "snd (getEAFromLicense s k now resp t) = s\<lparr>requests := requests s @ [GetEAFromLicense k], eaCache := eaCache s\<rparr>"
      by (simp add: getEAFromLicense_miss)
    then show ?thesis by blast
  next
    case (Some eaId)
    with \<open>cacheHit (eaCache s k) now = None\<close> have
      "snd (getEAFromLicense s k now resp t) = s\<lparr>requests := requests s @ [GetEAFromLicense k],
          eaCache := (eaCache s)(k \<mapsto> \<lparr>ea = eaId, timestamp = t\<rparr>)\<rparr>"
      by (simp add: getEAFromLicense_miss)
    then show ?thesis by blast
  qed
next
  case (Some c)
  then have "snd (getEAFromLicense s k now resp t) = s\<lparr>requests := requests s, eaCache := eaCache s\<rparr>"
    by (simp add: getEAFromLicense_def)
  then show ?thesis by blast
qed

lemma stopPolling_eq:
  "stopPolling s =
     s\<lparr>intervals := (case intervalId s of None \<Rightarrow> intervals s
                       | Some h \<Rightarrow> if h \<noteq> 0 then filter (\<lambda>t. fst t \<noteq> h) (intervals s) else intervals s),
       intervalId := (case intervalId s of None \<Rightarrow> None | Some h \<Rightarrow> if h \<noteq> 0 then None else Some h),
       currentLicenseKey := None, currentEA := None, lastPollTime := None\<rparr>"
  by (simp add: stopPolling_def clearInterval_def split: option.split)

lemma getNewSignalsForEA_ok:
  assumes "received resp = Some signals"
  shows "getNewSignalsForEA s eaName now resp =
     (Inr signals,
      s\<lparr>requests := requests s @
           [GetNewSignals eaName (sinceParam s now) 10000],
        consecutiveErrors := 0\<rparr>)"
  using assms by (simp add: getNewSignalsForEA_def Let_def)

lemma getNewSignalsForEA_fail_below:
  assumes "received resp = None" and "consecutiveErrors s + 1 < maxConsecutiveErrors"
  shows "getNewSignalsForEA s eaName now resp =
     (Inl (Error ''Failed to fetch new signals''),
      s\<lparr>requests := requests s @
           [GetNewSignals eaName (sinceParam s now) 10000],
        consecutiveErrors := consecutiveErrors s + 1\<rparr>)"
  using assms by (simp add: getNewSignalsForEA_def Let_def)

lemma getNewSignalsForEA_fail_threshold:
  assumes "received resp = None" and "maxConsecutiveErrors \<le> consecutiveErrors s + 1"
  shows "getNewSignalsForEA s eaName now resp =
     (Inl (Error ''Failed to fetch new signals''),
      setTimeout (stopPolling (s\<lparr>requests := requests s @
           [GetNewSignals eaName (sinceParam s now) 10000],
        consecutiveErrors := consecutiveErrors s + 1\<rparr>)) 300000)"
  using assms by (simp add: getNewSignalsForEA_def Let_def)

lemma check_resolution_failed:
  assumes "getEAFromLicense s k (nowCheck env) (eaResponse env) (nowStore env) = (Inl e, s1)"
  shows "checkForNewSignals s k env = (Inl e, s1)"
  using assms by (simp add: checkForNewSignals_def)

lemma check_no_ea:
  assumes "getEAFromLicense s k (nowCheck env) (eaResponse env) (nowStore env) = (Inr eaId, s1)"
    and "\<not> truthyString eaId"
  shows "checkForNewSignals s k env = (Inr (), s1)"
  using assms by (cases eaId) (simp_all add: checkForNewSignals_def)

lemma check_fetch:
  assumes "getEAFromLicense s k (nowCheck env) (eaResponse env) (nowStore env) = (Inr eaId, s1)"
    and "truthyString eaId"
  shows "checkForNewSignals s k env =
     (case getNewSignalsForEA (s1\<lparr>currentEA := eaId\<rparr>) (the eaId) (nowSince env) (signalsResponse env) of
        (Inl e, s3) \<Rightarrow> (Inl e, s3)
      | (Inr signals, s3) \<Rightarrow>
          (Inr (), (processSignals s3 signals)\<lparr>lastPollTime := Some (nowEnd env)\<rparr>))"
  using assms by (cases eaId) (simp_all add: checkForNewSignals_def Let_def)

lemma getEAFromLicense_frame:
  "lastPollTime (snd (getEAFromLicense s k now resp t)) = lastPollTime s"
  "consecutiveErrors (snd (getEAFromLicense s k now resp t)) = consecutiveErrors s"
  "timeouts (snd (getEAFromLicense s k now resp t)) = timeouts s"
  "intervals (snd (getEAFromLicense s k now resp t)) = intervals s"
  "intervalId (snd (getEAFromLicense s k now resp t)) = intervalId s"
  "nextHandle (snd (getEAFromLicense s k now resp t)) = nextHandle s"
  "invocations (snd (getEAFromLicense s k now resp t)) = invocations s"
  "onSignalFound (snd (getEAFromLicense s k now resp t)) = onSignalFound s"
  "onError (snd (getEAFromLicense s k now resp t)) = onError s"
  "isEnabled (snd (getEAFromLicense s k now resp t)) = isEnabled s"
  "currentLicenseKey (snd (getEAFromLicense s k now resp t)) = currentLicenseKey s"
  "currentEA (snd (getEAFromLicense s k now resp t)) = currentEA s"
proof -
  obtain rq c where "snd (getEAFromLicense s k now resp t) = s\<lparr>requests := rq, eaCache := c\<rparr>"
    using getEAFromLicense_shape by blast
  then show
    "lastPollTime (snd (getEAFromLicense s k now resp t)) = lastPollTime s"
    "consecutiveErrors (snd (getEAFromLicense s k now resp t)) = consecutiveErrors s"
    "timeouts (snd (getEAFromLicense s k now resp t)) = timeouts s"
    "intervals (snd (getEAFromLicense s k now resp t)) = intervals s"
    "intervalId (snd (getEAFromLicense s k now resp t)) = intervalId s"
    "nextHandle (snd (getEAFromLicense s k now resp t)) = nextHandle s"
    "invocations (snd (getEAFromLicense s k now resp t)) = invocations s"
    "onSignalFound (snd (getEAFromLicense s k now resp t)) = onSignalFound s"
    "onError (snd (getEAFromLicense s k now resp t)) = onError s"
    "isEnabled (snd (getEAFromLicense s k now resp t)) = isEnabled s"
    "currentLicenseKey (snd (getEAFromLicense s k now resp t)) = currentLicenseKey s"
    "currentEA (snd (getEAFromLicense s k now resp t)) = currentEA s"
    by simp_all
qed

text \<open>The four ways a cycle can go, read off the two lookups.\<close>

lemma cycle_resolution_failed:
  assumes "fst (getEAFromLicense s k (nowCheck env) (eaResponse env) (nowStore env)) = Inl e"
  shows "checkForNewSignals s k env =
           (Inl e, snd (getEAFromLicense s k (nowCheck env) (eaResponse env) (nowStore env)))"
  using assms check_resolution_failed [of s k env e] by (metis prod.collapse)

lemma cycle_no_ea:
  assumes "fst (getEAFromLicense s k (nowCheck env) (eaResponse env) (nowStore env)) = Inr eaId"
    and "\<not> truthyString eaId"
  shows "checkForNewSignals s k env =
           (Inr (), snd (getEAFromLicense s k (nowCheck env) (eaResponse env) (nowStore env)))"
  using assms check_no_ea [of s k env eaId] by (metis prod.collapse)

lemma cycle_fetch_failed_below:
  assumes "fst (getEAFromLicense s k (nowCheck env) (eaResponse env) (nowStore env)) = Inr eaId"
    and "truthyString eaId"
    and "received (signalsResponse env) = None"
    and "consecutiveErrors s + 1 < maxConsecutiveErrors"
  shows "checkForNewSignals s k env =
           (Inl (Error ''Failed to fetch new signals''),
            (snd (getEAFromLicense s k (nowCheck env) (eaResponse env) (nowStore env)))
              \<lparr>currentEA := eaId,
               requests := requests (snd (getEAFromLicense s k (nowCheck env) (eaResponse env) (nowStore env)))
                  @ [GetNewSignals (the eaId) (sinceParam s (nowSince env)) 10000],
               consecutiveErrors := consecutiveErrors s + 1\<rparr>)"
proof -
  let ?s1 = "snd (getEAFromLicense s k (nowCheck env) (eaResponse env) (nowStore env))"
  have g: "getEAFromLicense s k (nowCheck env) (eaResponse env) (nowStore env) = (Inr eaId, ?s1)"
    using assms(1) by (metis prod.collapse)
  have c: "consecutiveErrors (?s1\<lparr>currentEA := eaId\<rparr>) + 1 < maxConsecutiveErrors"
    using assms(4) by (simp add: getEAFromLicense_frame)
  have p: "sinceParam (?s1\<lparr>currentEA := eaId\<rparr>) (nowSince env) = sinceParam s (nowSince env)"
    by (simp add: sinceParam_def getEAFromLicense_frame)
  show ?thesis
    using p by (simp add: check_fetch [OF g assms(2)] getNewSignalsForEA_fail_below [OF assms(3) c]
        getEAFromLicense_frame)
qed

lemma cycle_fetch_failed_threshold:
  assumes "fst (getEAFromLicense s k (nowCheck env) (eaResponse env) (nowStore env)) = Inr eaId"
    and "truthyString eaId"
    and "received (signalsResponse env) = None"
    and "maxConsecutiveErrors \<le> consecutiveErrors s + 1"
  shows "checkForNewSignals s k env =
           (Inl (Error ''Failed to fetch new signals''),
            setTimeout (stopPolling
              ((snd (getEAFromLicense s k (nowCheck env) (eaResponse env) (nowStore env)))
                \<lparr>currentEA := eaId,
                 requests := requests (snd (getEAFromLicense s k (nowCheck env) (eaResponse env) (nowStore env)))
                    @ [GetNewSignals (the eaId) (sinceParam s (nowSince env)) 10000],
                 consecutiveErrors := consecutiveErrors s + 1\<rparr>)) 300000)"
proof -
  let ?s1 = "snd (getEAFromLicense s k (nowCheck env) (eaResponse env) (nowStore env))"
  have g: "getEAFromLicense s k (nowCheck env) (eaResponse env) (nowStore env) = (Inr eaId, ?s1)"
    using assms(1) by (metis prod.collapse)
  have c: "maxConsecutiveErrors \<le> consecutiveErrors (?s1\<lparr>currentEA := eaId\<rparr>) + 1"
    using assms(4) by (simp add: getEAFromLicense_frame)
  have p: "sinceParam (?s1\<lparr>currentEA := eaId\<rparr>) (nowSince env) = sinceParam s (nowSince env)"
    by (simp add: sinceParam_def getEAFromLicense_frame)
  show ?thesis
    using p by (simp add: check_fetch [OF g assms(2)] getNewSignalsForEA_fail_threshold [OF assms(3) c]
        getEAFromLicense_frame)
qed

lemma cycle_succeeded:
  assumes "fst (getEAFromLicense s k (nowCheck env) (eaResponse env) (nowStore env)) = Inr eaId"
    and "truthyString eaId"
    and "received (signalsResponse env) = Some signals"
  shows "checkForNewSignals s k env =
           (Inr (),
            (snd (getEAFromLicense s k (nowCheck env) (eaResponse env) (nowStore env)))
              \<lparr>currentEA := eaId,
               requests := requests (snd (getEAFromLicense s k (nowCheck env) (eaResponse env) (nowStore env)))
                  @ [GetNewSignals (the eaId) (sinceParam s (nowSince env)) 10000],
               consecutiveErrors := 0,
               invocations := invocations s @
                 (case onSignalFound s of None \<Rightarrow> [] | Some cb \<Rightarrow> map (SignalFound cb) signals),
               lastPollTime := Some (nowEnd env)\<rparr>)"
proof -
  let ?s1 = "snd (getEAFromLicense s k (nowCheck env) (eaResponse env) (nowStore env))"
  have g: "getEAFromLicense s k (nowCheck env) (eaResponse env) (nowStore env) = (Inr eaId, ?s1)"
    using assms(1) by (metis prod.collapse)
  have p: "sinceParam (?s1\<lparr>currentEA := eaId\<rparr>) (nowSince env) = sinceParam s (nowSince env)"
    by (simp add: sinceParam_def getEAFromLicense_frame)
  show ?thesis
    using p by (simp add: check_fetch [OF g assms(2)] getNewSignalsForEA_ok [OF assms(3)]
        processSignals_eq getEAFromLicense_frame)
qed

subsection \<open>Evaluating the concrete sessions\<close>

lemmas service_defs =
  ok_def EA_CACHE_TTL_def maxConsecutiveErrors_def initial_def setInterval_def clearInterval_def
  setTimeout_def enableDatabaseConnections_def stopPolling_def disableDatabaseConnections_def
  startMockPolling_def startRealPolling_def startPolling_def isRunning_def mockTick_def
  cacheHit_def getEAFromLicense_def sinceParam_def getNewSignalsForEA_def resume_def
  checkForNewSignals_def initialCheck_def intervalTick_def Let_def

lemmas example_defs =
  envResolutionFails_def envNoEA_def envFetchFails_def envSuccess_def envClockSetBack_def

lemma running_eq:
  "running = initial\<lparr>onSignalFound := Some 1, onError := Some 2,
      currentLicenseKey := Some ''ABC123'', lastPollTime := Some 1000000,
      intervals := [(1, 30000, RealTick ''ABC123'')], nextHandle := 2, intervalId := Some 1\<rparr>"
  by (simp add: running_def service_defs)

lemma twoFailures_eq:
  "twoFailures = initial\<lparr>onSignalFound := Some 1, onError := Some 2,
      currentLicenseKey := Some ''ABC123'', lastPollTime := Some 1000000,
      intervals := [(1, 30000, RealTick ''ABC123'')], nextHandle := 2, intervalId := Some 1,
      currentEA := Some ''MockEA'', consecutiveErrors := 2,
      eaCache := [''ABC123'' \<mapsto> \<lparr>ea = Some ''MockEA'', timestamp = 1030100\<rparr>],
      requests := [GetEAFromLicense ''ABC123'', GetNewSignals ''MockEA'' 1000000 10000,
                   GetNewSignals ''MockEA'' 1000000 10000],
      invocations := [ErrorReported 2 ''Database error: Error: Failed to fetch new signals'',
                      ErrorReported 2 ''Database error: Error: Failed to fetch new signals'']\<rparr>"
  by (simp add: twoFailures_def running_eq service_defs example_defs)

subsection \<open>C2: the watermark\<close>

text \<open>
  C2 (amended). In one cycle the watermark \<open>lastPollTime\<close> behaves as follows. If the
  license lookup fails, or resolves to no EA, it is unchanged. If the signals fetch
  fails and the incremented error counter stays below the threshold, it is unchanged.
  If the signals fetch succeeds, it becomes the clock reading taken at the end of the
  cycle, which is at or after the previous watermark whenever that reading is.
\<close>

theorem watermark_per_cycle:
  "(fst (getEAFromLicense s k (nowCheck env) (eaResponse env) (nowStore env)) = Inl e
      \<longrightarrow> lastPollTime (snd (checkForNewSignals s k env)) = lastPollTime s)
   \<and> (fst (getEAFromLicense s k (nowCheck env) (eaResponse env) (nowStore env)) = Inr eaId
        \<and> \<not> truthyString eaId
      \<longrightarrow> lastPollTime (snd (checkForNewSignals s k env)) = lastPollTime s)
   \<and> (fst (getEAFromLicense s k (nowCheck env) (eaResponse env) (nowStore env)) = Inr eaId
        \<and> truthyString eaId \<and> received (signalsResponse env) = None
        \<and> consecutiveErrors s + 1 < maxConsecutiveErrors
      \<longrightarrow> lastPollTime (snd (checkForNewSignals s k env)) = lastPollTime s)
   \<and> (fst (getEAFromLicense s k (nowCheck env) (eaResponse env) (nowStore env)) = Inr eaId
        \<and> truthyString eaId \<and> received (signalsResponse env) = Some signals
      \<longrightarrow> lastPollTime (snd (checkForNewSignals s k env)) = Some (nowEnd env)
          \<and> (\<forall>w. lastPollTime s = Some w \<and> w \<le> nowEnd env
                 \<longrightarrow> (\<exists>w'. lastPollTime (snd (checkForNewSignals s k env)) = Some w' \<and> w \<le> w')))"
proof (intro conjI impI)
  assume "fst (getEAFromLicense s k (nowCheck env) (eaResponse env) (nowStore env)) = Inl e"
  then show "lastPollTime (snd (checkForNewSignals s k env)) = lastPollTime s"
    by (simp add: cycle_resolution_failed getEAFromLicense_frame)
next
  assume "fst (getEAFromLicense s k (nowCheck env) (eaResponse env) (nowStore env)) = Inr eaId
            \<and> \<not> truthyString eaId"
  then show "lastPollTime (snd (checkForNewSignals s k env)) = lastPollTime s"
    by (simp add: cycle_no_ea getEAFromLicense_frame)
next
  assume "fst (getEAFromLicense s k (nowCheck env) (eaResponse env) (nowStore env)) = Inr eaId
            \<and> truthyString eaId \<and> received (signalsResponse env) = None
            \<and> consecutiveErrors s + 1 < maxConsecutiveErrors"
  then show "lastPollTime (snd (checkForNewSignals s k env)) = lastPollTime s"
    by (simp add: cycle_fetch_failed_below getEAFromLicense_frame)
next
  assume a: "fst (getEAFromLicense s k (nowCheck env) (eaResponse env) (nowStore env)) = Inr eaId
            \<and> truthyString eaId \<and> received (signalsResponse env) = Some signals"
  then show "lastPollTime (snd (checkForNewSignals s k env)) = Some (nowEnd env)"
    by (simp add: cycle_succeeded)
  then show "\<forall>w. lastPollTime s = Some w \<and> w \<le> nowEnd env
                 \<longrightarrow> (\<exists>w'. lastPollTime (snd (checkForNewSignals s k env)) = Some w' \<and> w \<le> w')"
    by simp
qed

text \<open>The four cases of C2 on the session \<open>running\<close>, one concrete cycle each.\<close>

theorem watermark_per_cycle_witness:
  "(fst (getEAFromLicense running ''ABC123'' (nowCheck envResolutionFails)
           (eaResponse envResolutionFails) (nowStore envResolutionFails))
      = Inl (Error ''Failed to fetch EA from license'')
    \<and> lastPollTime running = Some 1000000
    \<and> lastPollTime (snd (checkForNewSignals running ''ABC123'' envResolutionFails)) = Some 1000000)
   \<and> (fst (getEAFromLicense running ''ABC123'' (nowCheck envNoEA) (eaResponse envNoEA)
           (nowStore envNoEA)) = Inr None
    \<and> \<not> truthyString None
    \<and> lastPollTime (snd (checkForNewSignals running ''ABC123'' envNoEA)) = Some 1000000)
   \<and> (fst (getEAFromLicense running ''ABC123'' (nowCheck envFetchFails) (eaResponse envFetchFails)
           (nowStore envFetchFails)) = Inr (Some ''MockEA'')
    \<and> truthyString (Some ''MockEA'') \<and> received (signalsResponse envFetchFails) = None
    \<and> consecutiveErrors running + 1 < maxConsecutiveErrors
    \<and> lastPollTime (snd (checkForNewSignals running ''ABC123'' envFetchFails)) = Some 1000000)
   \<and> (fst (getEAFromLicense running ''ABC123'' (nowCheck envSuccess) (eaResponse envSuccess)
           (nowStore envSuccess)) = Inr (Some ''MockEA'')
    \<and> received (signalsResponse envSuccess) = Some [signalBuy, signalSell]
    \<and> 1000000 \<le> nowEnd envSuccess
    \<and> lastPollTime (snd (checkForNewSignals running ''ABC123'' envSuccess)) = Some 1030200)"
proof -
  have r: "fst (getEAFromLicense running ''ABC123'' (nowCheck envResolutionFails)
           (eaResponse envResolutionFails) (nowStore envResolutionFails))
      = Inl (Error ''Failed to fetch EA from license'')"
    by (simp add: running_eq service_defs example_defs)
  have n: "fst (getEAFromLicense running ''ABC123'' (nowCheck envNoEA) (eaResponse envNoEA)
           (nowStore envNoEA)) = Inr None"
    by (simp add: running_eq service_defs example_defs)
  have f: "fst (getEAFromLicense running ''ABC123'' (nowCheck envFetchFails) (eaResponse envFetchFails)
           (nowStore envFetchFails)) = Inr (Some ''MockEA'')"
    by (simp add: running_eq service_defs example_defs)
  have g: "fst (getEAFromLicense running ''ABC123'' (nowCheck envSuccess) (eaResponse envSuccess)
           (nowStore envSuccess)) = Inr (Some ''MockEA'')"
    by (simp add: running_eq service_defs example_defs)
  have w: "lastPollTime running = Some 1000000"
    by (simp add: running_eq)
  have c: "consecutiveErrors running + 1 < maxConsecutiveErrors"
    by (simp add: running_eq service_defs)
  have ff: "received (signalsResponse envFetchFails) = None"
    by (simp add: example_defs)
  have gg: "received (signalsResponse envSuccess) = Some [signalBuy, signalSell]"
    by (simp add: example_defs ok_def)
  have t: "nowEnd envSuccess = 1030200"
    by (simp add: example_defs)
  show ?thesis
    using watermark_per_cycle [of running "''ABC123''" envResolutionFails
        "Error ''Failed to fetch EA from license''"]
      watermark_per_cycle [of running "''ABC123''" envNoEA _ None]
      watermark_per_cycle [of running "''ABC123''" envFetchFails _ "Some ''MockEA''"]
      watermark_per_cycle [of running "''ABC123''" envSuccess _ "Some ''MockEA''" "[signalBuy, signalSell]"]
      r n f g w c ff gg t
    by simp
qed

text \<open>
  C2, as stated, fails in two ways. In the session \<open>twoFailures\<close> the error counter
  is 2; the cycle resolves the EA, its signals request times out, the counter reaches
  the threshold and \<open>stopPolling\<close> sets the watermark to \<open>null\<close>: a cycle whose fetch
  fails has changed the watermark. And a successful cycle that ends while the clock
  reads 999000 moves the watermark of \<open>running\<close> back from 1000000 to 999000.
\<close>

theorem watermark_counterexample:
  "fst (getEAFromLicense twoFailures ''ABC123'' (nowCheck envFetchFails) (eaResponse envFetchFails)
          (nowStore envFetchFails)) = Inr (Some ''MockEA'')
   \<and> received (signalsResponse envFetchFails) = None
   \<and> lastPollTime twoFailures = Some 1000000
   \<and> lastPollTime (snd (checkForNewSignals twoFailures ''ABC123'' envFetchFails)) = None
   \<and> received (signalsResponse envClockSetBack) = Some [signalBuy, signalSell]
   \<and> lastPollTime running = Some 1000000
   \<and> lastPollTime (snd (checkForNewSignals running ''ABC123'' envClockSetBack)) = Some 999000"
  by (simp add: twoFailures_eq running_eq service_defs example_defs)

subsection \<open>The timer table keeps its invariant\<close>

lemma timerInv_truthy:
  assumes "timerInv s"
  shows "truthyHandle (intervalId s) \<longleftrightarrow> isRunning s"
  using assms by (cases "intervalId s") (simp_all add: timerInv_def isRunning_def)

lemma filter_only_handle:
  assumes "map fst xs = [h]"
  shows "filter (\<lambda>t. fst t \<noteq> h) xs = []"
  using assms by (cases xs) auto

lemma stopPolling_timers:
  assumes "timerInv s"
  shows "intervals (stopPolling s) = []" and "intervalId (stopPolling s) = None"
    and "nextHandle (stopPolling s) = nextHandle s"
proof -
  show "intervals (stopPolling s) = []"
    using assms by (cases "intervalId s") (simp_all add: stopPolling_eq timerInv_def filter_only_handle)
  show "intervalId (stopPolling s) = None"
    using assms by (cases "intervalId s") (simp_all add: stopPolling_eq timerInv_def)
  show "nextHandle (stopPolling s) = nextHandle s"
    by (simp add: stopPolling_eq)
qed

lemma timerInv_stopPolling:
  assumes "timerInv s"
  shows "timerInv (stopPolling s)"
  using stopPolling_timers [OF assms] assms by (simp add: timerInv_def)

lemma startPolling_running:
  assumes "truthyHandle (intervalId s)"
  shows "startPolling s k f g now = s"
  using assms by (simp add: startPolling_def)

lemma startPolling_stopped:
  assumes "\<not> truthyHandle (intervalId s)"
  shows "startPolling s k f g now =
     s\<lparr>onSignalFound := f, onError := g, currentLicenseKey := Some k, lastPollTime := Some now,
       intervals := intervals s @ [(nextHandle s, 30000, if isEnabled s then RealTick k else MockTick)],
       nextHandle := Suc (nextHandle s), intervalId := Some (nextHandle s)\<rparr>"
  using assms
  by (simp add: startPolling_def startMockPolling_def startRealPolling_def setInterval_def Let_def)

lemma timerInv_startPolling:
  assumes "timerInv s"
  shows "timerInv (startPolling s k f g now)"
proof (cases "truthyHandle (intervalId s)")
  case True
  then show ?thesis using assms by (simp add: startPolling_running)
next
  case False
  with assms have "intervalId s = None"
    by (cases "intervalId s") (simp_all add: timerInv_def)
  with assms False show ?thesis
    by (simp add: startPolling_stopped timerInv_def)
qed

lemma timerInv_checkForNewSignals:
  assumes "timerInv s"
  shows "timerInv (snd (checkForNewSignals s k env))"
proof (cases "fst (getEAFromLicense s k (nowCheck env) (eaResponse env) (nowStore env))")
  case (Inl e)
  then show ?thesis
    using assms by (simp add: cycle_resolution_failed timerInv_def getEAFromLicense_frame)
next
  case (Inr eaId)
  show ?thesis
  proof (cases "truthyString eaId")
    case False
    with Inr show ?thesis
      using assms by (simp add: cycle_no_ea timerInv_def getEAFromLicense_frame)
  next
    case True
    show ?thesis
    proof (cases "received (signalsResponse env)")
      case (Some signals)
      with Inr True show ?thesis
        using assms by (simp add: cycle_succeeded timerInv_def getEAFromLicense_frame)
    next
      case None
      show ?thesis
      proof (cases "consecutiveErrors s + 1 < maxConsecutiveErrors")
        case True
        with Inr \<open>truthyString eaId\<close> None show ?thesis
          using assms by (simp add: cycle_fetch_failed_below timerInv_def getEAFromLicense_frame)
      next
        case False
        then have th: "maxConsecutiveErrors \<le> consecutiveErrors s + 1" by simp
        let ?s2 = "(snd (getEAFromLicense s k (nowCheck env) (eaResponse env) (nowStore env)))
                \<lparr>currentEA := eaId,
                 requests := requests (snd (getEAFromLicense s k (nowCheck env) (eaResponse env) (nowStore env)))
                    @ [GetNewSignals (the eaId) (sinceParam s (nowSince env)) 10000],
                 consecutiveErrors := consecutiveErrors s + 1\<rparr>"
        have "timerInv ?s2"
          using assms by (simp add: timerInv_def getEAFromLicense_frame)
        then have "timerInv (stopPolling ?s2)"
          by (rule timerInv_stopPolling)
        then have "timerInv (setTimeout (stopPolling ?s2) 300000)"
          by (simp add: timerInv_def setTimeout_def)
        then show ?thesis
          by (simp add: cycle_fetch_failed_threshold [OF Inr \<open>truthyString eaId\<close> None th])
      qed
    qed
  qed
qed

lemma initialCheck_eq:
  "initialCheck s k env = snd (checkForNewSignals s k env)"
  by (simp add: initialCheck_def split: prod.split sum.split)

lemma intervalTick_eq:
  "intervalTick s k env =
     (case fst (checkForNewSignals s k env) of
        Inr u \<Rightarrow> snd (checkForNewSignals s k env)
      | Inl e \<Rightarrow>
          (case onError (snd (checkForNewSignals s k env)) of
             None \<Rightarrow> snd (checkForNewSignals s k env)
           | Some cb \<Rightarrow>
               (snd (checkForNewSignals s k env))
                 \<lparr>invocations := invocations (snd (checkForNewSignals s k env))
                     @ [ErrorReported cb (''Database error: '' @ errorToString e)]\<rparr>))"
  by (cases "checkForNewSignals s k env")
    (auto simp: intervalTick_def split: sum.split option.split)

lemma intervalTick_shape:
  "\<exists>calls. intervalTick s k env = (snd (checkForNewSignals s k env))\<lparr>invocations := calls\<rparr>"
proof (cases "fst (checkForNewSignals s k env)")
  case (Inr u)
  then have "intervalTick s k env = (snd (checkForNewSignals s k env))
      \<lparr>invocations := invocations (snd (checkForNewSignals s k env))\<rparr>"
    by (simp add: intervalTick_eq)
  then show ?thesis by blast
next
  case (Inl e)
  show ?thesis
  proof (cases "onError (snd (checkForNewSignals s k env))")
    case None
    with Inl have "intervalTick s k env = (snd (checkForNewSignals s k env))
        \<lparr>invocations := invocations (snd (checkForNewSignals s k env))\<rparr>"
      by (simp add: intervalTick_eq)
    then show ?thesis by blast
  next
    case (Some cb)
    with Inl have "intervalTick s k env = (snd (checkForNewSignals s k env))
        \<lparr>invocations := invocations (snd (checkForNewSignals s k env))
                     @ [ErrorReported cb (''Database error: '' @ errorToString e)]\<rparr>"
      by (simp add: intervalTick_eq)
    then show ?thesis by blast
  qed
qed

lemma mockTick_eq:
  "mockTick s d =
     s\<lparr>invocations := invocations s @
        (case onSignalFound s of None \<Rightarrow> [] | Some cb \<Rightarrow> [SignalFound cb (mockSignal d)])\<rparr>"
  by (simp add: mockTick_def split: option.split)

lemma timerInv_intervalTick:
  assumes "timerInv s"
  shows "timerInv (intervalTick s k env)"
proof -
  obtain calls where
    "intervalTick s k env = (snd (checkForNewSignals s k env))\<lparr>invocations := calls\<rparr>"
    using intervalTick_shape by blast
  then have "timerInv (intervalTick s k env) = timerInv (snd (checkForNewSignals s k env))"
    by (simp add: timerInv_def)
  then show ?thesis
    using timerInv_checkForNewSignals [OF assms] by simp
qed

lemma timerInv_resume:
  assumes "timerInv s"
  shows "timerInv (resume s now)"
proof (cases "currentLicenseKey s")
  case None
  then show ?thesis using assms by (simp add: resume_def)
next
  case (Some k)
  have "timerInv (s\<lparr>consecutiveErrors := 0\<rparr>)"
    using assms by (simp add: timerInv_def)
  then have "timerInv (startPolling (s\<lparr>consecutiveErrors := 0\<rparr>) k (onSignalFound s) (onError s) now)"
    by (rule timerInv_startPolling)
  with Some assms show ?thesis by (simp add: resume_def)
qed

lemma timerInv_step:
  assumes "timerInv s"
  shows "timerInv (step s ev)"
proof (cases ev)
  case EnableDatabaseConnections
  then show ?thesis using assms by (simp add: enableDatabaseConnections_def timerInv_def)
next
  case DisableDatabaseConnections
  have "timerInv (s\<lparr>isEnabled := False\<rparr>)" using assms by (simp add: timerInv_def)
  then have "timerInv (stopPolling (s\<lparr>isEnabled := False\<rparr>))" by (rule timerInv_stopPolling)
  with DisableDatabaseConnections show ?thesis by (simp add: disableDatabaseConnections_def)
next
  case (StartPolling k f g now)
  then show ?thesis using timerInv_startPolling [OF assms] by simp
next
  case StopPolling
  then show ?thesis using timerInv_stopPolling [OF assms] by simp
next
  case (IntervalFires h env d)
  have m: "timerInv (mockTick s d)"
    using assms by (simp add: mockTick_eq timerInv_def)
  show ?thesis
    using IntervalFires m timerInv_intervalTick [OF assms] assms
    by (simp split: option.split tick.split)
next
  case (InitialCheckSettles k env)
  then show ?thesis using timerInv_checkForNewSignals [OF assms] by (simp add: initialCheck_eq)
next
  case (TimeoutFires now)
  show ?thesis
  proof (cases "timeouts s")
    case Nil
    with TimeoutFires assms show ?thesis by simp
  next
    case (Cons delay rest)
    have "timerInv (s\<lparr>timeouts := rest\<rparr>)" using assms by (simp add: timerInv_def)
    then have "timerInv (resume (s\<lparr>timeouts := rest\<rparr>) now)" by (rule timerInv_resume)
    with TimeoutFires Cons show ?thesis by simp
  qed
qed

lemma timerInv_initial: "timerInv initial"
  by (simp add: timerInv_def initial_def)

lemma timerInv_foldl:
  assumes "timerInv s"
  shows "timerInv (foldl step s evs)"
  using assms by (induction evs arbitrary: s) (simp_all add: timerInv_step)

lemma timerInv_run: "timerInv (run initial evs)"
  unfolding run_def by (rule timerInv_foldl [OF timerInv_initial])

lemma timerInv_at_most_one:
  assumes "timerInv s"
  shows "length (intervals s) \<le> 1"
proof -
  have "length (map fst (intervals s)) \<le> 1"
    using assms by (cases "intervalId s") (simp_all add: timerInv_def)
  then show ?thesis by simp
qed

subsection \<open>C4: starting twice\<close>

text \<open>
  C4. \<open>startPolling\<close> on a service whose \<open>intervalId\<close> is set returns the state
  unchanged: callbacks, license key, watermark and timer table are what they were. In
  every state the service can reach from construction, a running service is such a
  state, and the runtime holds at most one of its interval timers.
\<close>

theorem startPolling_idempotent:
  "(truthyHandle (intervalId s) \<longrightarrow> startPolling s k f g now = s)
   \<and> (isRunning (run initial evs) \<longrightarrow> startPolling (run initial evs) k f g now = run initial evs)
   \<and> length (intervals (run initial evs)) \<le> 1"
proof (intro conjI impI)
  assume "truthyHandle (intervalId s)"
  then show "startPolling s k f g now = s" by (rule startPolling_running)
next
  assume "isRunning (run initial evs)"
  then have "truthyHandle (intervalId (run initial evs))"
    using timerInv_truthy [OF timerInv_run] by simp
  then show "startPolling (run initial evs) k f g now = run initial evs"
    by (rule startPolling_running)
next
  show "length (intervals (run initial evs)) \<le> 1"
    by (rule timerInv_at_most_one [OF timerInv_run])
qed

text \<open>C4 on the session \<open>running\<close>: a second start with another key, other callbacks
  and a later clock changes nothing.\<close>

theorem startPolling_idempotent_witness:
  "truthyHandle (intervalId running)
   \<and> startPolling running ''XYZ789'' (Some 7) (Some 8) 2000000 = running
   \<and> isRunning (run initial [StartPolling ''ABC123'' (Some 1) (Some 2) 1000000])
   \<and> startPolling (run initial [StartPolling ''ABC123'' (Some 1) (Some 2) 1000000])
         ''XYZ789'' (Some 7) (Some 8) 2000000
       = run initial [StartPolling ''ABC123'' (Some 1) (Some 2) 1000000]
   \<and> length (intervals (run initial [StartPolling ''ABC123'' (Some 1) (Some 2) 1000000])) \<le> 1"
proof -
  have a: "truthyHandle (intervalId running)"
    by (simp add: running_eq)
  have b: "isRunning (run initial [StartPolling ''ABC123'' (Some 1) (Some 2) 1000000])"
    by (simp add: run_def service_defs)
  show ?thesis
    using a b
      startPolling_idempotent [of running "''XYZ789''" "Some 7" "Some 8" 2000000
        "[StartPolling ''ABC123'' (Some 1) (Some 2) 1000000]"]
    by simp
qed

subsection \<open>C5: delivery of the signals\<close>

text \<open>
  C5. When the EA resolves, the signals fetch succeeds and \<open>onSignalFound\<close> is set, the
  cycle adds to the invocations exactly one call of \<open>onSignalFound\<close> per returned
  signal, in the order of the response and with the signal as received; this holds for
  the cycle itself and for both of its callers.
\<close>

theorem signals_delivered_in_order:
  "fst (getEAFromLicense s k (nowCheck env) (eaResponse env) (nowStore env)) = Inr eaId
     \<and> truthyString eaId \<and> received (signalsResponse env) = Some signals
     \<and> onSignalFound s = Some cb
   \<longrightarrow> invocations (snd (checkForNewSignals s k env)) = invocations s @ map (SignalFound cb) signals
     \<and> invocations (intervalTick s k env) = invocations s @ map (SignalFound cb) signals
     \<and> invocations (initialCheck s k env) = invocations s @ map (SignalFound cb) signals"
proof (intro impI)
  assume a: "fst (getEAFromLicense s k (nowCheck env) (eaResponse env) (nowStore env)) = Inr eaId
     \<and> truthyString eaId \<and> received (signalsResponse env) = Some signals
     \<and> onSignalFound s = Some cb"
  then have c: "invocations (snd (checkForNewSignals s k env)) = invocations s @ map (SignalFound cb) signals"
    by (simp add: cycle_succeeded)
  from a have "fst (checkForNewSignals s k env) = Inr ()"
    by (simp add: cycle_succeeded)
  then have t: "intervalTick s k env = snd (checkForNewSignals s k env)"
    by (simp add: intervalTick_eq)
  show "invocations (snd (checkForNewSignals s k env)) = invocations s @ map (SignalFound cb) signals
     \<and> invocations (intervalTick s k env) = invocations s @ map (SignalFound cb) signals
     \<and> invocations (initialCheck s k env) = invocations s @ map (SignalFound cb) signals"
    using c t by (simp add: initialCheck_eq)
qed

text \<open>C5 on the scenario of the specification: BUY then SELL.\<close>

theorem signals_delivered_in_order_witness:
  "fst (getEAFromLicense running ''ABC123'' (nowCheck envSuccess) (eaResponse envSuccess)
          (nowStore envSuccess)) = Inr (Some ''MockEA'')
   \<and> truthyString (Some ''MockEA'')
   \<and> received (signalsResponse envSuccess) = Some [signalBuy, signalSell]
   \<and> onSignalFound running = Some 1
   \<and> invocations running = []
   \<and> invocations (snd (checkForNewSignals running ''ABC123'' envSuccess))
       = [SignalFound 1 signalBuy, SignalFound 1 signalSell]
   \<and> invocations (intervalTick running ''ABC123'' envSuccess)
       = [SignalFound 1 signalBuy, SignalFound 1 signalSell]
   \<and> invocations (initialCheck running ''ABC123'' envSuccess)
       = [SignalFound 1 signalBuy, SignalFound 1 signalSell]"
proof -
  have g: "fst (getEAFromLicense running ''ABC123'' (nowCheck envSuccess) (eaResponse envSuccess)
           (nowStore envSuccess)) = Inr (Some ''MockEA'')"
    by (simp add: running_eq service_defs example_defs)
  have gg: "received (signalsResponse envSuccess) = Some [signalBuy, signalSell]"
    by (simp add: example_defs ok_def)
  have c: "onSignalFound running = Some 1" "invocations running = []"
    by (simp_all add: running_eq initial_def)
  show ?thesis
    using g gg c
      signals_delivered_in_order [of running "''ABC123''" envSuccess "Some ''MockEA''"
        "[signalBuy, signalSell]" 1]
    by simp
qed

subsection \<open>C6: the EA cache\<close>

text \<open>
  C6. The TTL is five minutes. If the cache holds an entry for the license key whose age
  is strictly below the TTL, \<open>getEAFromLicense\<close> returns its value and changes nothing
  (no request is issued). Otherwise it issues the license request; a successful answer
  is returned and stored under the key with the clock read at that moment, a failed one
  raises the error and leaves the cache as it was.
\<close>

theorem ea_resolution_cached:
  "EA_CACHE_TTL = 5 * 60 * 1000
   \<and> (eaCache s k = Some c \<and> now - timestamp c < EA_CACHE_TTL
        \<longrightarrow> getEAFromLicense s k now resp t = (Inr (ea c), s))
   \<and> (\<not> (\<exists>c. eaCache s k = Some c \<and> now - timestamp c < EA_CACHE_TTL)
        \<and> received resp = Some eaId
        \<longrightarrow> fst (getEAFromLicense s k now resp t) = Inr eaId
          \<and> requests (snd (getEAFromLicense s k now resp t)) = requests s @ [GetEAFromLicense k]
          \<and> eaCache (snd (getEAFromLicense s k now resp t))
              = (eaCache s)(k \<mapsto> \<lparr>ea = eaId, timestamp = t\<rparr>))
   \<and> (\<not> (\<exists>c. eaCache s k = Some c \<and> now - timestamp c < EA_CACHE_TTL)
        \<and> received resp = None
        \<longrightarrow> fst (getEAFromLicense s k now resp t) = Inl (Error ''Failed to fetch EA from license'')
          \<and> requests (snd (getEAFromLicense s k now resp t)) = requests s @ [GetEAFromLicense k]
          \<and> eaCache (snd (getEAFromLicense s k now resp t)) = eaCache s)"
proof (intro conjI impI)
  show "EA_CACHE_TTL = 5 * 60 * 1000" by (simp add: EA_CACHE_TTL_def)
next
  assume "eaCache s k = Some c \<and> now - timestamp c < EA_CACHE_TTL"
  then show "getEAFromLicense s k now resp t = (Inr (ea c), s)"
    by (simp add: getEAFromLicense_hit)
next
  assume a: "\<not> (\<exists>c. eaCache s k = Some c \<and> now - timestamp c < EA_CACHE_TTL)
        \<and> received resp = Some eaId"
  then have m: "cacheHit (eaCache s k) now = None"
    by (cases "eaCache s k") (simp_all add: cacheHit_def)
  show "fst (getEAFromLicense s k now resp t) = Inr eaId"
    using a by (simp add: getEAFromLicense_miss [OF m])
  show "requests (snd (getEAFromLicense s k now resp t)) = requests s @ [GetEAFromLicense k]"
    using a by (simp add: getEAFromLicense_miss [OF m])
  show "eaCache (snd (getEAFromLicense s k now resp t)) = (eaCache s)(k \<mapsto> \<lparr>ea = eaId, timestamp = t\<rparr>)"
    using a by (simp add: getEAFromLicense_miss [OF m])
next
  assume a: "\<not> (\<exists>c. eaCache s k = Some c \<and> now - timestamp c < EA_CACHE_TTL)
        \<and> received resp = None"
  then have m: "cacheHit (eaCache s k) now = None"
    by (cases "eaCache s k") (simp_all add: cacheHit_def)
  show "fst (getEAFromLicense s k now resp t) = Inl (Error ''Failed to fetch EA from license'')"
    using a by (simp add: getEAFromLicense_miss [OF m])
  show "requests (snd (getEAFromLicense s k now resp t)) = requests s @ [GetEAFromLicense k]"
    using a by (simp add: getEAFromLicense_miss [OF m])
  show "eaCache (snd (getEAFromLicense s k now resp t)) = eaCache s"
    using a by (simp add: getEAFromLicense_miss [OF m])
qed

lemma noEACached_eq:
  "noEACached = initial\<lparr>onSignalFound := Some 1, onError := Some 2,
      currentLicenseKey := Some ''ABC123'', lastPollTime := Some 1000000,
      intervals := [(1, 30000, RealTick ''ABC123'')], nextHandle := 2, intervalId := Some 1,
      eaCache := [''ABC123'' \<mapsto> \<lparr>ea = None, timestamp = 1030100\<rparr>],
      requests := [GetEAFromLicense ''ABC123'']\<rparr>"
  by (simp add: noEACached_def running_eq service_defs example_defs)

text \<open>
  C6 on four lookups: a fresh entry, a fresh entry that records that no EA exists, an
  entry whose age is exactly the TTL, and an empty cache with a failing request.
\<close>

theorem ea_resolution_cached_witness:
  "(eaCache twoFailures ''ABC123'' = Some \<lparr>ea = Some ''MockEA'', timestamp = 1030100\<rparr>
      \<and> 1100000 - timestamp \<lparr>ea = Some ''MockEA'', timestamp = 1030100\<rparr> < EA_CACHE_TTL
      \<and> getEAFromLicense twoFailures ''ABC123'' 1100000 Rejected 1100100
          = (Inr (Some ''MockEA''), twoFailures))
   \<and> (eaCache noEACached ''ABC123'' = Some \<lparr>ea = None, timestamp = 1030100\<rparr>
      \<and> 1100000 - timestamp \<lparr>ea = None, timestamp = 1030100\<rparr> < EA_CACHE_TTL
      \<and> getEAFromLicense noEACached ''ABC123'' 1100000 Rejected 1100100 = (Inr None, noEACached))
   \<and> (\<not> (\<exists>c. eaCache twoFailures ''ABC123'' = Some c \<and> 1330100 - timestamp c < EA_CACHE_TTL)
      \<and> received (Responded 200 (Some (Some ''OtherEA''))) = Some (Some ''OtherEA'')
      \<and> fst (getEAFromLicense twoFailures ''ABC123'' 1330100 (Responded 200 (Some (Some ''OtherEA''))) 1330200)
          = Inr (Some ''OtherEA'')
      \<and> requests (snd (getEAFromLicense twoFailures ''ABC123'' 1330100
            (Responded 200 (Some (Some ''OtherEA''))) 1330200))
          = requests twoFailures @ [GetEAFromLicense ''ABC123'']
      \<and> eaCache (snd (getEAFromLicense twoFailures ''ABC123'' 1330100
            (Responded 200 (Some (Some ''OtherEA''))) 1330200)) ''ABC123''
          = Some \<lparr>ea = Some ''OtherEA'', timestamp = 1330200\<rparr>)
   \<and> (\<not> (\<exists>c. eaCache running ''ABC123'' = Some c \<and> 1030000 - timestamp c < EA_CACHE_TTL)
      \<and> received (Responded 500 None :: string option response) = None
      \<and> fst (getEAFromLicense running ''ABC123'' 1030000 (Responded 500 None) 1030100)
          = Inl (Error ''Failed to fetch EA from license'')
      \<and> requests (snd (getEAFromLicense running ''ABC123'' 1030000 (Responded 500 None) 1030100))
          = requests running @ [GetEAFromLicense ''ABC123'']
      \<and> eaCache (snd (getEAFromLicense running ''ABC123'' 1030000 (Responded 500 None) 1030100))
          = eaCache running)"
proof -
  have h1: "eaCache twoFailures ''ABC123'' = Some \<lparr>ea = Some ''MockEA'', timestamp = 1030100\<rparr>"
    by (simp add: twoFailures_eq)
  have h2: "eaCache noEACached ''ABC123'' = Some \<lparr>ea = None, timestamp = 1030100\<rparr>"
    by (simp add: noEACached_eq)
  have h3: "\<not> (\<exists>c. eaCache twoFailures ''ABC123'' = Some c \<and> 1330100 - timestamp c < EA_CACHE_TTL)"
    by (simp add: twoFailures_eq EA_CACHE_TTL_def)
  have h4: "\<not> (\<exists>c. eaCache running ''ABC123'' = Some c \<and> 1030000 - timestamp c < EA_CACHE_TTL)"
    by (simp add: running_eq initial_def)
  have r3: "received (Responded 200 (Some (Some ''OtherEA''))) = Some (Some ''OtherEA'')"
    by (simp add: ok_def)
  have r4: "received (Responded 500 None :: string option response) = None"
    by simp
  have t: "(1100000::int) - 1030100 < EA_CACHE_TTL"
    by (simp add: EA_CACHE_TTL_def)
  show ?thesis
    using h1 h2 h3 h4 r3 r4 t
      ea_resolution_cached [of twoFailures "''ABC123''" "\<lparr>ea = Some ''MockEA'', timestamp = 1030100\<rparr>"
        1100000 Rejected 1100100]
      ea_resolution_cached [of noEACached "''ABC123''" "\<lparr>ea = None, timestamp = 1030100\<rparr>"
        1100000 Rejected 1100100]
      ea_resolution_cached [where s = twoFailures and k = "''ABC123''" and now = 1330100
        and resp = "Responded 200 (Some (Some ''OtherEA''))" and eaId = "Some ''OtherEA''"
        and t = 1330200]
      ea_resolution_cached [where s = running and k = "''ABC123''" and now = 1030000
        and resp = "Responded 500 None" and t = 1030100]
    by simp
qed

subsection \<open>C3: the error counter\<close>

lemma startPolling_counter:
  "consecutiveErrors (startPolling s k f g now) = consecutiveErrors s"
  "timeouts (startPolling s k f g now) = timeouts s"
  "eaCache (startPolling s k f g now) = eaCache s"
  "requests (startPolling s k f g now) = requests s"
  "invocations (startPolling s k f g now) = invocations s"
  by (cases "truthyHandle (intervalId s)"; simp add: startPolling_running startPolling_stopped)+





subsection \<open>C7: the signals request\<close>

text \<open>
  C7 does not hold of the code. The first poll of a session is meant to look back one
  hour (the comment on the default of \<open>since\<close>, and the optimisation guide: ``1 hour ago
  (for initial poll)''). But \<open>startPolling\<close> sets the watermark to the instant of the
  start before the first cycle runs, so the default is never taken by a session that has
  had no successful cycle: the session \<open>running\<close>, started at 1000000, sends
  \<open>since\<close> = 1000000 in its initial check, and not 1000000 - 3600000. The default is
  taken only when the watermark is \<open>null\<close> (the session was stopped while the initial
  check was waiting for the license lookup), and then it is one hour before the clock
  read at the fetch, 1030100 - 3600000.
\<close>

theorem signals_request_counterexample:
  "running = startPolling initial ''ABC123'' (Some 1) (Some 2) 1000000
   \<and> requests (initialCheck running ''ABC123'' envSuccess)
       = [GetEAFromLicense ''ABC123'', GetNewSignals ''MockEA'' 1000000 10000]
   \<and> GetNewSignals ''MockEA'' (1000000 - 60 * 60 * 1000) 10000
       \<notin> set (requests (initialCheck running ''ABC123'' envSuccess))
   \<and> requests (initialCheck (stopPolling running) ''ABC123'' envSuccess)
       = [GetEAFromLicense ''ABC123'', GetNewSignals ''MockEA'' (1030100 - 60 * 60 * 1000) 10000]
   \<and> GetNewSignals ''MockEA'' (1000000 - 60 * 60 * 1000) 10000
       \<notin> set (requests (initialCheck (stopPolling running) ''ABC123'' envSuccess))"
  by (simp add: running_def service_defs example_defs)

subsection \<open>C9: the cache outlives the session\<close>

text \<open>
  C9. \<open>stopPolling\<close> and \<open>disableDatabaseConnections\<close> leave the EA cache as it is.
  So if the cache holds an entry for a license key, then after the session is torn down
  (by \<open>stopPolling\<close>, or by disabling and enabling again) and started anew with that
  key, a lookup made while the entry is younger than the TTL returns the cached EA and
  changes nothing: no license request is issued.
\<close>

theorem cache_survives_teardown:
  "eaCache (stopPolling s) = eaCache s
   \<and> eaCache (disableDatabaseConnections s) = eaCache s
   \<and> (eaCache s k = Some c \<and> now - timestamp c < EA_CACHE_TTL
      \<longrightarrow> getEAFromLicense (startPolling (stopPolling s) k f g start) k now resp t
            = (Inr (ea c), startPolling (stopPolling s) k f g start)
        \<and> getEAFromLicense
              (startPolling (enableDatabaseConnections (disableDatabaseConnections s)) k f g start)
              k now resp t
            = (Inr (ea c),
               startPolling (enableDatabaseConnections (disableDatabaseConnections s)) k f g start))"
proof (intro conjI impI)
  show "eaCache (stopPolling s) = eaCache s"
    by (simp add: stopPolling_eq)
  show "eaCache (disableDatabaseConnections s) = eaCache s"
    by (simp add: disableDatabaseConnections_def stopPolling_eq)
next
  assume a: "eaCache s k = Some c \<and> now - timestamp c < EA_CACHE_TTL"
  then have "eaCache (startPolling (stopPolling s) k f g start) k = Some c"
    by (simp add: startPolling_counter stopPolling_eq)
  with a show "getEAFromLicense (startPolling (stopPolling s) k f g start) k now resp t
            = (Inr (ea c), startPolling (stopPolling s) k f g start)"
    by (simp add: getEAFromLicense_hit)
next
  assume a: "eaCache s k = Some c \<and> now - timestamp c < EA_CACHE_TTL"
  then have "eaCache (startPolling (enableDatabaseConnections (disableDatabaseConnections s))
                k f g start) k = Some c"
    by (simp add: startPolling_counter enableDatabaseConnections_def
        disableDatabaseConnections_def stopPolling_eq)
  with a show "getEAFromLicense
              (startPolling (enableDatabaseConnections (disableDatabaseConnections s)) k f g start)
              k now resp t
            = (Inr (ea c),
               startPolling (enableDatabaseConnections (disableDatabaseConnections s)) k f g start)"
    by (simp add: getEAFromLicense_hit)
qed

text \<open>
  C9 on the session \<open>twoFailures\<close>, whose cache has ''MockEA'' for ''ABC123'' since
  1030100: stopped and started again at 1090000, the lookup at 1100000 answers from the
  cache although the license service would reject the request; the initial check of the
  new session issues the signals request only.
\<close>

theorem cache_survives_teardown_witness:
  "eaCache twoFailures ''ABC123'' = Some \<lparr>ea = Some ''MockEA'', timestamp = 1030100\<rparr>
   \<and> 1100000 - timestamp \<lparr>ea = Some ''MockEA'', timestamp = 1030100\<rparr> < EA_CACHE_TTL
   \<and> eaCache (stopPolling twoFailures) ''ABC123''
       = Some \<lparr>ea = Some ''MockEA'', timestamp = 1030100\<rparr>
   \<and> eaCache (disableDatabaseConnections twoFailures) ''ABC123''
       = Some \<lparr>ea = Some ''MockEA'', timestamp = 1030100\<rparr>
   \<and> fst (getEAFromLicense (startPolling (stopPolling twoFailures) ''ABC123'' (Some 1) (Some 2) 1090000)
         ''ABC123'' 1100000 Rejected 1100100) = Inr (Some ''MockEA'')
   \<and> requests (snd (getEAFromLicense
         (startPolling (stopPolling twoFailures) ''ABC123'' (Some 1) (Some 2) 1090000)
         ''ABC123'' 1100000 Rejected 1100100)) = requests twoFailures
   \<and> requests (initialCheck (startPolling (stopPolling twoFailures) ''ABC123'' (Some 1) (Some 2) 1090000)
         ''ABC123'' (envSuccess\<lparr>nowCheck := 1100000, eaResponse := Rejected\<rparr>))
       = requests twoFailures @ [GetNewSignals ''MockEA'' 1090000 10000]"
proof -
  have h: "eaCache twoFailures ''ABC123'' = Some \<lparr>ea = Some ''MockEA'', timestamp = 1030100\<rparr>"
    by (simp add: twoFailures_eq)
  have t: "1100000 - timestamp \<lparr>ea = Some ''MockEA'', timestamp = 1030100\<rparr> < EA_CACHE_TTL"
    by (simp add: EA_CACHE_TTL_def)
  note w = cache_survives_teardown [where s = twoFailures and k = "''ABC123''"
        and c = "\<lparr>ea = Some ''MockEA'', timestamp = 1030100\<rparr>" and now = 1100000
        and f = "Some 1" and g = "Some 2" and start = 1090000 and resp = Rejected and t = 1100100]
  have c1: "eaCache (stopPolling twoFailures) ''ABC123''
       = Some \<lparr>ea = Some ''MockEA'', timestamp = 1030100\<rparr>"
    using w h by simp
  have c2: "eaCache (disableDatabaseConnections twoFailures) ''ABC123''
       = Some \<lparr>ea = Some ''MockEA'', timestamp = 1030100\<rparr>"
    using w h by simp
  have g: "getEAFromLicense (startPolling (stopPolling twoFailures) ''ABC123'' (Some 1) (Some 2) 1090000)
         ''ABC123'' 1100000 Rejected 1100100
      = (Inr (Some ''MockEA''), startPolling (stopPolling twoFailures) ''ABC123'' (Some 1) (Some 2) 1090000)"
    using w h t by simp
  have c3: "fst (getEAFromLicense (startPolling (stopPolling twoFailures) ''ABC123'' (Some 1) (Some 2) 1090000)
         ''ABC123'' 1100000 Rejected 1100100) = Inr (Some ''MockEA'')"
    using g by simp
  have c4: "requests (snd (getEAFromLicense
         (startPolling (stopPolling twoFailures) ''ABC123'' (Some 1) (Some 2) 1090000)
         ''ABC123'' 1100000 Rejected 1100100)) = requests twoFailures"
    using g by (simp add: startPolling_counter stopPolling_eq)
  have c5: "requests (initialCheck (startPolling (stopPolling twoFailures) ''ABC123'' (Some 1) (Some 2) 1090000)
         ''ABC123'' (envSuccess\<lparr>nowCheck := 1100000, eaResponse := Rejected\<rparr>))
       = requests twoFailures @ [GetNewSignals ''MockEA'' 1090000 10000]"
    by (simp add: twoFailures_eq service_defs example_defs)
  show ?thesis
    using h t c1 c2 c3 c4 c5 by blast
qed

subsection \<open>C10: starting while disabled\<close>

text \<open>
  C10. When the service is disabled and not running, \<open>startPolling\<close> still creates a
  session: afterwards \<open>isRunning\<close> holds and the runtime has one interval timer, of
  period 30000 ms, whose body is the mock generator. Starting issues no request. When
  that timer fires, \<open>onSignalFound\<close> receives one fabricated signal and still no
  request is issued.
\<close>

theorem disabled_start_runs_mock:
  "\<not> isEnabled s \<and> \<not> isRunning s \<and> timerInv s
   \<longrightarrow> isRunning (startPolling s k (Some cb) g now)
     \<and> intervalId (startPolling s k (Some cb) g now) = Some (nextHandle s)
     \<and> intervals (startPolling s k (Some cb) g now) = [(nextHandle s, 30000, MockTick)]
     \<and> requests (startPolling s k (Some cb) g now) = requests s
     \<and> step (startPolling s k (Some cb) g now) (IntervalFires (nextHandle s) env d)
         = mockTick (startPolling s k (Some cb) g now) d
     \<and> invocations (mockTick (startPolling s k (Some cb) g now) d)
         = invocations s @ [SignalFound cb (mockSignal d)]
     \<and> requests (mockTick (startPolling s k (Some cb) g now) d) = requests s"
proof (intro impI)
  assume a: "\<not> isEnabled s \<and> \<not> isRunning s \<and> timerInv s"
  then have n: "intervalId s = None"
    by (simp add: isRunning_def)
  with a have e: "intervals s = []"
    by (simp add: timerInv_def)
  have eq: "startPolling s k (Some cb) g now =
     s\<lparr>onSignalFound := Some cb, onError := g, currentLicenseKey := Some k, lastPollTime := Some now,
       intervals := [(nextHandle s, 30000, MockTick)],
       nextHandle := Suc (nextHandle s), intervalId := Some (nextHandle s)\<rparr>"
    using a n e by (simp add: startPolling_stopped)
  show "isRunning (startPolling s k (Some cb) g now)
     \<and> intervalId (startPolling s k (Some cb) g now) = Some (nextHandle s)
     \<and> intervals (startPolling s k (Some cb) g now) = [(nextHandle s, 30000, MockTick)]
     \<and> requests (startPolling s k (Some cb) g now) = requests s
     \<and> step (startPolling s k (Some cb) g now) (IntervalFires (nextHandle s) env d)
         = mockTick (startPolling s k (Some cb) g now) d
     \<and> invocations (mockTick (startPolling s k (Some cb) g now) d)
         = invocations s @ [SignalFound cb (mockSignal d)]
     \<and> requests (mockTick (startPolling s k (Some cb) g now) d) = requests s"
    by (simp add: eq isRunning_def mockTick_eq)
qed

text \<open>C10 on the fresh service after \<open>disableDatabaseConnections\<close>.\<close>

theorem disabled_start_runs_mock_witness:
  "\<not> isEnabled disabled \<and> \<not> isRunning disabled \<and> timerInv disabled
   \<and> isRunning (startPolling disabled ''ABC123'' (Some 1) (Some 2) 1000000)
   \<and> intervals (startPolling disabled ''ABC123'' (Some 1) (Some 2) 1000000) = [(1, 30000, MockTick)]
   \<and> requests (startPolling disabled ''ABC123'' (Some 1) (Some 2) 1000000) = []
   \<and> step (startPolling disabled ''ABC123'' (Some 1) (Some 2) 1000000)
         (IntervalFires 1 envSuccess mockDrawsExample)
       = mockTick (startPolling disabled ''ABC123'' (Some 1) (Some 2) 1000000) mockDrawsExample
   \<and> invocations (mockTick (startPolling disabled ''ABC123'' (Some 1) (Some 2) 1000000) mockDrawsExample)
       = [SignalFound 1 (mockSignal mockDrawsExample)]
   \<and> sig_action (mockSignal mockDrawsExample) = ''BUY''
   \<and> requests (mockTick (startPolling disabled ''ABC123'' (Some 1) (Some 2) 1000000) mockDrawsExample)
       = []"
proof -
  have d: "disabled = initial\<lparr>isEnabled := False\<rparr>"
    by (simp add: disabled_def service_defs)
  have a: "\<not> isEnabled disabled" "\<not> isRunning disabled" "timerInv disabled"
    "nextHandle disabled = 1" "requests disabled = []" "invocations disabled = []"
    by (simp_all add: d initial_def isRunning_def timerInv_def)
  have m: "sig_action (mockSignal mockDrawsExample) = ''BUY''"
    by (simp add: mockSignal_def mockDrawsExample_def)
  show ?thesis
    using a m
      disabled_start_runs_mock [where s = disabled and k = "''ABC123''" and cb = 1
        and g = "Some 2" and now = 1000000 and env = envSuccess and d = mockDrawsExample]
    by simp
qed

subsection \<open>C1: what happens at the threshold\<close>

text \<open>
  C1 does not hold of the code. The session \<open>twoFailures\<close> runs for license ''ABC123''
  with the counter at 2. Its next timer cycle fails the signals fetch: the counter
  becomes 3, \<open>stopPolling\<close> clears the timer and also sets \<open>currentLicenseKey\<close> to
  \<open>null\<close>, and the five-minute timeout is set. When that timeout fires, its body finds
  no license key and does nothing: the counter stays at 3 and the service is not
  running.
\<close>

theorem suspension_is_not_resumed:
  "isRunning twoFailures \<and> currentLicenseKey twoFailures = Some ''ABC123''
   \<and> consecutiveErrors twoFailures = 2
   \<and> consecutiveErrors (intervalTick twoFailures ''ABC123'' envFetchFails) = 3
   \<and> \<not> isRunning (intervalTick twoFailures ''ABC123'' envFetchFails)
   \<and> intervals (intervalTick twoFailures ''ABC123'' envFetchFails) = []
   \<and> timeouts (intervalTick twoFailures ''ABC123'' envFetchFails) = [300000]
   \<and> currentLicenseKey (intervalTick twoFailures ''ABC123'' envFetchFails) = None
   \<and> step (intervalTick twoFailures ''ABC123'' envFetchFails) (TimeoutFires 1340100)
       = (intervalTick twoFailures ''ABC123'' envFetchFails)\<lparr>timeouts := []\<rparr>
   \<and> \<not> isRunning (step (intervalTick twoFailures ''ABC123'' envFetchFails) (TimeoutFires 1340100))
   \<and> consecutiveErrors (step (intervalTick twoFailures ''ABC123'' envFetchFails) (TimeoutFires 1340100))
       = 3"
  by (simp add: twoFailures_eq service_defs example_defs)

subsection \<open>C8: reporting of failures\<close>

text \<open>
  C8 does not hold of the code for the initial check. On the session \<open>running\<close>, whose
  \<open>onError\<close> is callback 2, a timer cycle that fails reports to \<open>onError\<close>, for a failed
  license lookup as for a failed signals fetch; the same two failures in the initial
  check invoke nothing.
\<close>

theorem initial_check_failure_not_reported:
  "onError running = Some 2 \<and> invocations running = []
   \<and> fst (checkForNewSignals running ''ABC123'' envResolutionFails)
       = Inl (Error ''Failed to fetch EA from license'')
   \<and> fst (checkForNewSignals running ''ABC123'' envFetchFails)
       = Inl (Error ''Failed to fetch new signals'')
   \<and> invocations (intervalTick running ''ABC123'' envResolutionFails)
       = [ErrorReported 2 ''Database error: Error: Failed to fetch EA from license'']
   \<and> invocations (intervalTick running ''ABC123'' envFetchFails)
       = [ErrorReported 2 ''Database error: Error: Failed to fetch new signals'']
   \<and> invocations (initialCheck running ''ABC123'' envResolutionFails) = []
   \<and> invocations (initialCheck running ''ABC123'' envFetchFails) = []"
  by (simp add: running_eq service_defs example_defs)

end
